theory Spec2Isabelle
  imports Complex_Main
begin

section \<open>Event-stream collation\<close>

text \<open>
  The embedding follows \<^verbatim>\<open>event_stream_collate_fn\<close> of the inference tutorial line by
  line. Conventions:
  \<^item> a structured event array is a list of \<open>event\<close> records; the slice \<^verbatim>\<open>e[field][:-1]\<close> is
    \<open>butlast\<close> of the column, and element-wise array arithmetic is \<open>map\<close>;
  \<^item> Python and NumPy integers are \<open>int\<close>; the two explicit casts to 32-bit integers are
    written out as a signed wrap-around (\<open>astype_int32\<close>); the arithmetic in the dataset's own
    field types, which this repository does not fix, is taken without overflow;
  \<^item> the true division \<^verbatim>\<open>timesteps / 1000\<close> is exact division on \<open>rat\<close>;
  \<^item> every exception is a value of \<open>error\<close>, returned on the left of a sum;
  \<^item> NumPy's floor division rounds towards minus infinity and gives 0 for a zero divisor
    (with a warning), which is what \<open>div\<close> on \<open>int\<close> does.
\<close>

subsection \<open>Data\<close>

text \<open>One event of a sample: the fields \<^verbatim>\<open>t\<close>, \<^verbatim>\<open>x\<close>, \<^verbatim>\<open>y\<close>, \<^verbatim>\<open>p\<close> of the structured array.
  The one-dimensional branch reads only \<^verbatim>\<open>t\<close> and \<^verbatim>\<open>x\<close>.\<close>

record event =
  ev_t :: int
  ev_x :: int
  ev_y :: int
  ev_p :: int

text \<open>One element of the batch: a tuple whose first two components are the events and the
  label; \<open>aux\<close> holds the components after the second one (empty for a pair).\<close>

record sample =
  events :: "event list"
  label :: int
  aux :: "int list"

datatype error =
    UnpackError       \<comment> \<open>\<^verbatim>\<open>x, y, *z = zip(*batch)\<close> with fewer than two values\<close>
  | AssertionError    \<comment> \<open>\<^verbatim>\<open>assert len(z) == 0\<close>\<close>
  | ResolutionError   \<comment> \<open>\<^verbatim>\<open>raise ValueError('resolution must contain 1 or 2 elements')\<close>\<close>
  | PadError          \<comment> \<open>\<^verbatim>\<open>np.pad\<close> with a negative pad width\<close>
  | StackError        \<comment> \<open>\<^verbatim>\<open>np.stack\<close> of no rows or of rows of different lengths\<close>

text \<open>The length array is one-dimensional, or two-dimensional after \<^verbatim>\<open>lengths[None, ...]\<close>.\<close>

datatype lengths_array = Vector "int list" | Matrix "int list list"

text \<open>\<open>shape\<close> is the shape of the array; \<open>flat\<close> lists its entries in batch order, whatever
  the leading dimension.\<close>

fun shape :: "lengths_array \<Rightarrow> nat list" where
  "shape (Vector v) = [length v]"
| "shape (Matrix m) = [length m, length (hd m)]"

fun flat :: "lengths_array \<Rightarrow> int list" where
  "flat (Vector v) = v"
| "flat (Matrix m) = concat m"

text \<open>The returned tuple \<^verbatim>\<open>(tokens, y, timesteps, lengths)\<close>.\<close>

record collated =
  out_tokens :: "int list list"
  out_labels :: "int list"
  out_timesteps :: "rat list list"
  out_lengths :: lengths_array

subsection \<open>Library operations\<close>

definition astype_int32 :: "int \<Rightarrow> int" where
  "astype_int32 v = (v + 2 ^ 31) mod 2 ^ 32 - 2 ^ 31"

fun np_diff :: "int list \<Rightarrow> int list" where
  "np_diff (a # b # rest) = (b - a) # np_diff (b # rest)"
| "np_diff [a] = []"
| "np_diff [] = []"

definition ones_like :: "int list \<Rightarrow> int list" where
  "ones_like a = map (\<lambda>_. 1) a"

definition np_prod :: "int list \<Rightarrow> int" where
  "np_prod r = prod_list r"

definition np_pad :: "int list \<Rightarrow> int \<Rightarrow> int \<Rightarrow> error + int list" where
  "np_pad e n c = (if n < 0 then Inl PadError else Inr (e @ replicate (nat n) c))"

text \<open>A list comprehension whose body may raise: the first error ends it.\<close>

fun collect :: "(error + 'a) list \<Rightarrow> error + 'a list" where
  "collect [] = Inr []"
| "collect (r # rs) =
     (case r of
        Inl err \<Rightarrow> Inl err
      | Inr v \<Rightarrow> (case collect rs of Inl err \<Rightarrow> Inl err | Inr vs \<Rightarrow> Inr (v # vs)))"

definition np_stack :: "'a list list \<Rightarrow> error + 'a list list" where
  "np_stack rows =
     (if rows = [] then Inl StackError
      else if list_all (\<lambda>r. length r = length (hd rows)) rows then Inr rows
      else Inl StackError)"

text \<open>\<^verbatim>\<open>zip(*batch)\<close> stops at the shortest tuple, so the starred target \<^verbatim>\<open>z\<close> receives as many
  columns as the shortest tuple of the batch has components after the second.\<close>

definition unzip_aux :: "sample list \<Rightarrow> int list list" where
  "unzip_aux batch =
     (let n = Min (set (map (\<lambda>s. length (aux s)) batch))
      in map (\<lambda>k. map (\<lambda>s. aux s ! k) batch) [0..<n])"

subsection \<open>The collation routine\<close>

definition make_timesteps :: "bool \<Rightarrow> event list list \<Rightarrow> int list list" where
  "make_timesteps no_time_information x =
     (if no_time_information then map (\<lambda>e. ones_like (butlast (map ev_t e))) x
      else map (\<lambda>e. np_diff (map ev_t e)) x)"

definition make_tokens :: "int list \<Rightarrow> event list list \<Rightarrow> error + int list list" where
  "make_tokens resolution x =
     (if length resolution = 1 then
        Inr (map (\<lambda>e. map (\<lambda>v. astype_int32 (ev_x v)) (butlast e)) x)
      else if length resolution = 2 then
        Inr (map (\<lambda>e. map (\<lambda>v. astype_int32
                 (ev_x v * ev_y v + np_prod resolution * astype_int32 (ev_p v))) (butlast e)) x)
      else Inl ResolutionError)"

definition pad_length :: "int list \<Rightarrow> int \<Rightarrow> int" where
  "pad_length lengths pad_unit = (Max (set lengths) div pad_unit) * pad_unit + pad_unit"

definition pad_rows :: "int list list \<Rightarrow> int \<Rightarrow> int \<Rightarrow> error + int list list" where
  "pad_rows rows pad_len c =
     (case collect (map (\<lambda>e. np_pad e (pad_len - int (length e)) c) rows) of
        Inl err \<Rightarrow> Inl err
      | Inr padded \<Rightarrow> np_stack padded)"

definition event_stream_collate_fn ::
    "sample list \<Rightarrow> int list \<Rightarrow> int \<Rightarrow> bool \<Rightarrow> error + collated" where
  "event_stream_collate_fn batch resolution pad_unit no_time_information =
     (if batch = [] then Inl UnpackError
      else
        let x = map events batch; y = map label batch; z = unzip_aux batch in
        if length z \<noteq> 0 then Inl AssertionError
        else
          let batch_size_one = (length x = 1);
              timesteps = make_timesteps no_time_information x
          in case make_tokens resolution x of
               Inl err \<Rightarrow> Inl err
             | Inr tokens \<Rightarrow>
                (let lengths = map (\<lambda>e. int (length e)) timesteps;
                     pad_len = pad_length lengths pad_unit
                 in (case pad_rows tokens pad_len (- 1) of
                      Inl err \<Rightarrow> Inl err
                    | Inr tokens' \<Rightarrow>
                        (case pad_rows timesteps pad_len 0 of
                           Inl err \<Rightarrow> Inl err
                         | Inr timesteps' \<Rightarrow>
                             Inr \<lparr> out_tokens = tokens',
                                   out_labels = y,
                                   out_timesteps = map (map (\<lambda>v. rat_of_int v / 1000)) timesteps',
                                   out_lengths = (if batch_size_one then Matrix [lengths]
                                                  else Vector lengths) \<rparr>))))"

text \<open>The array \<^verbatim>\<open>lengths\<close> and the value \<^verbatim>\<open>pad_length\<close> of the routine, as functions of
  its arguments.\<close>

definition sample_lengths :: "bool \<Rightarrow> sample list \<Rightarrow> int list" where
  "sample_lengths no_time_information batch =
     map (\<lambda>e. int (length e)) (make_timesteps no_time_information (map events batch))"

definition max_len :: "bool \<Rightarrow> sample list \<Rightarrow> int" where
  "max_len no_time_information batch = Max (set (sample_lengths no_time_information batch))"

definition batch_pad_length :: "bool \<Rightarrow> sample list \<Rightarrow> int \<Rightarrow> int" where
  "batch_pad_length no_time_information batch pad_unit =
     pad_length (sample_lengths no_time_information batch) pad_unit"

subsection \<open>Concrete batches\<close>

text \<open>Small inputs on which the routine is run below: three gesture events, a two-sample
  batch, a single-sample batch, a sample without events, a sample of five audio events, and
  batches whose elements carry a third component.\<close>

definition ev :: "int \<Rightarrow> int \<Rightarrow> int \<Rightarrow> int \<Rightarrow> event" where
  "ev tt xx yy pp = \<lparr> ev_t = tt, ev_x = xx, ev_y = yy, ev_p = pp \<rparr>"

definition gesture_events :: "event list" where
  "gesture_events = [ev 0 3 5 1, ev 2000 1 1 0, ev 2500 2 2 1]"

definition pair_batch :: "sample list" where
  "pair_batch = [\<lparr> events = gesture_events, label = 7, aux = [] \<rparr>,
                 \<lparr> events = [ev 100 4 0 0, ev 400 9 2 1], label = 3, aux = [] \<rparr>]"

definition single_batch :: "sample list" where
  "single_batch = [\<lparr> events = gesture_events, label = 7, aux = [] \<rparr>]"

definition empty_sample_batch :: "sample list" where
  "empty_sample_batch = [\<lparr> events = [], label = 0, aux = [] \<rparr>]"

definition audio_batch :: "sample list" where
  "audio_batch = [\<lparr> events = [ev 0 10 0 1, ev 10 20 0 1, ev 30 30 0 1, ev 60 40 0 1, ev 100 50 0 1],
                     label = 2, aux = [] \<rparr>]"

definition mixed_batch :: "sample list" where
  "mixed_batch = [\<lparr> events = gesture_events, label = 7, aux = [9] \<rparr>,
                  \<lparr> events = [ev 100 4 0 0, ev 400 9 2 1], label = 3, aux = [] \<rparr>]"

definition triple_batch :: "sample list" where
  "triple_batch = [\<lparr> events = gesture_events, label = 7, aux = [9] \<rparr>,
                   \<lparr> events = [ev 100 4 0 0, ev 400 9 2 1], label = 3, aux = [8] \<rparr>]"

section \<open>Auxiliary facts\<close>

subsection \<open>Padding\<close>

lemma collect_np_pad_ok:
  "\<forall>e\<in>set rows. int (length e) \<le> L \<Longrightarrow>
   collect (map (\<lambda>e. np_pad e (L - int (length e)) c) rows) =
     Inr (map (\<lambda>e. e @ replicate (nat (L - int (length e))) c) rows)"
  by (induction rows) (simp_all add: np_pad_def)

lemma collect_np_pad_D:
  "collect (map (\<lambda>e. np_pad e (L - int (length e)) c) rows) = Inr out \<Longrightarrow>
   (\<forall>e\<in>set rows. int (length e) \<le> L) \<and>
   out = map (\<lambda>e. e @ replicate (nat (L - int (length e))) c) rows"
proof (induction rows arbitrary: out)
  case Nil
  then show ?case by simp
next
  case (Cons e rows)
  from Cons.prems obtain vs where le: "int (length e) \<le> L"
    and rest: "collect (map (\<lambda>e. np_pad e (L - int (length e)) c) rows) = Inr vs"
    and out: "out = (e @ replicate (nat (L - int (length e))) c) # vs"
    by (auto simp: np_pad_def split: if_splits sum.splits)
  from Cons.IH[OF rest] le out show ?case by simp
qed

lemma np_stack_padded:
  assumes "rows \<noteq> []" and "\<forall>e\<in>set rows. int (length e) \<le> L"
  shows "np_stack (map (\<lambda>e. e @ replicate (nat (L - int (length e))) c) rows) =
         Inr (map (\<lambda>e. e @ replicate (nat (L - int (length e))) c) rows)"
proof -
  have "length (e @ replicate (nat (L - int (length e))) c) = nat L" if "e \<in> set rows" for e
    using that assms(2) by auto
  then show ?thesis using assms(1)
    by (cases rows) (auto simp: np_stack_def list_all_iff)
qed

lemma pad_rows_ok:
  assumes "rows \<noteq> []" and "\<forall>e\<in>set rows. int (length e) \<le> L"
  shows "pad_rows rows L c = Inr (map (\<lambda>e. e @ replicate (nat (L - int (length e))) c) rows)"
  using assms by (simp add: pad_rows_def collect_np_pad_ok np_stack_padded)

lemma pad_rows_D:
  assumes "pad_rows rows L c = Inr out"
  shows "\<forall>e\<in>set rows. int (length e) \<le> L"
    and "out = map (\<lambda>e. e @ replicate (nat (L - int (length e))) c) rows"
proof -
  from assms obtain padded
    where c: "collect (map (\<lambda>e. np_pad e (L - int (length e)) c) rows) = Inr padded"
      and s: "np_stack padded = Inr out"
    by (auto simp: pad_rows_def split: sum.splits)
  from s have "out = padded"
    by (auto simp: np_stack_def split: if_splits)
  with collect_np_pad_D[OF c]
  show "\<forall>e\<in>set rows. int (length e) \<le> L"
    and "out = map (\<lambda>e. e @ replicate (nat (L - int (length e))) c) rows"
    by simp_all
qed

lemma length_np_diff: "length (np_diff ts) = length ts - 1"
  by (induction ts rule: np_diff.induct) auto

lemma nth_np_diff: "Suc j < length ts \<Longrightarrow> np_diff ts ! j = ts ! Suc j - ts ! j"
proof (induction ts arbitrary: j rule: np_diff.induct)
  case (1 a b rest)
  then show ?case by (cases j) auto
qed auto

lemma length_make_timesteps: "length (make_timesteps nti x) = length x"
  by (simp add: make_timesteps_def)

lemma length_row_make_timesteps:
  "i < length x \<Longrightarrow> length (make_timesteps nti x ! i) = length (x ! i) - 1"
  by (simp add: make_timesteps_def ones_like_def length_np_diff)

lemma make_tokens_Inr:
  assumes "make_tokens res x = Inr toks"
  shows "length res = 1 \<or> length res = 2" and "length toks = length x"
    and "i < length x \<Longrightarrow> length (toks ! i) = length (x ! i) - 1"
  using assms by (auto simp: make_tokens_def split: if_splits)

text \<open>The shape of every returned result, read off the definition of the routine.\<close>

lemma collate_InrD:
  assumes "event_stream_collate_fn batch res pu nti = Inr r"
  defines "ts \<equiv> make_timesteps nti (map events batch)"
  defines "lens \<equiv> map (\<lambda>e. int (length e)) ts"
  defines "L \<equiv> pad_length lens pu"
  shows "batch \<noteq> []"
    and "unzip_aux batch = []"
    and "\<exists>toks. make_tokens res (map events batch) = Inr toks \<and>
           (\<forall>e\<in>set toks. int (length e) \<le> L) \<and>
           out_tokens r = map (\<lambda>e. e @ replicate (nat (L - int (length e))) (- 1)) toks"
    and "\<forall>e\<in>set ts. int (length e) \<le> L"
    and "out_timesteps r =
           map (\<lambda>e. map (\<lambda>v. rat_of_int v / 1000) (e @ replicate (nat (L - int (length e))) 0)) ts"
    and "out_labels r = map label batch"
    and "out_lengths r = (if length batch = 1 then Matrix [lens] else Vector lens)"
proof -
  from assms(1) show ne: "batch \<noteq> []"
    by (auto simp: event_stream_collate_fn_def split: if_splits)
  from assms(1) ne show z: "unzip_aux batch = []"
    by (auto simp: event_stream_collate_fn_def Let_def split: if_splits)
  from assms(1) ne z obtain toks toks' ts'
    where mt: "make_tokens res (map events batch) = Inr toks"
      and p1: "pad_rows toks L (- 1) = Inr toks'"
      and p2: "pad_rows ts L 0 = Inr ts'"
      and r: "r = \<lparr> out_tokens = toks', out_labels = map label batch,
                    out_timesteps = map (map (\<lambda>v. rat_of_int v / 1000)) ts',
                    out_lengths = (if length batch = 1 then Matrix [lens] else Vector lens) \<rparr>"
    unfolding event_stream_collate_fn_def Let_def ts_def lens_def L_def
    by (simp split: sum.splits) 
  from pad_rows_D[OF p1] mt r
  show "\<exists>toks. make_tokens res (map events batch) = Inr toks \<and>
           (\<forall>e\<in>set toks. int (length e) \<le> L) \<and>
           out_tokens r = map (\<lambda>e. e @ replicate (nat (L - int (length e))) (- 1)) toks"
    by simp
  from pad_rows_D[OF p2] r
  show "\<forall>e\<in>set ts. int (length e) \<le> L"
    and "out_timesteps r =
           map (\<lambda>e. map (\<lambda>v. rat_of_int v / 1000) (e @ replicate (nat (L - int (length e))) 0)) ts"
    by simp_all
  from r show "out_labels r = map label batch"
    and "out_lengths r = (if length batch = 1 then Matrix [lens] else Vector lens)"
    by simp_all
qed

subsection \<open>Rows of the result\<close>

lemma length_sample_lengths: "length (sample_lengths nti batch) = length batch"
  by (simp add: sample_lengths_def length_make_timesteps)

lemma sample_lengths_nth:
  "i < length batch \<Longrightarrow> sample_lengths nti batch ! i = int (length (events (batch ! i)) - 1)"
  by (simp add: sample_lengths_def length_make_timesteps length_row_make_timesteps)

lemma out_lengths_flat:
  "event_stream_collate_fn batch res pu nti = Inr r \<Longrightarrow>
   flat (out_lengths r) = sample_lengths nti batch"
  using collate_InrD(7)[of batch res pu nti r] by (simp add: sample_lengths_def)

lemma rows_le_pad_length:
  assumes "event_stream_collate_fn batch res pu nti = Inr r" and "i < length batch"
  shows "sample_lengths nti batch ! i \<le> batch_pad_length nti batch pu"
proof -
  have "make_timesteps nti (map events batch) ! i \<in> set (make_timesteps nti (map events batch))"
    using assms(2) by (simp add: length_make_timesteps)
  with collate_InrD(4)[OF assms(1)] assms(2) show ?thesis
    by (simp add: sample_lengths_def batch_pad_length_def length_make_timesteps)
qed

lemma out_timesteps_row:
  assumes "event_stream_collate_fn batch res pu nti = Inr r" and "i < length batch"
  shows "out_timesteps r ! i =
           map (\<lambda>v. rat_of_int v / 1000)
             (make_timesteps nti (map events batch) ! i @
              replicate (nat (batch_pad_length nti batch pu - sample_lengths nti batch ! i)) 0)"
  using assms(2)
  by (simp add: collate_InrD(5)[OF assms(1)] sample_lengths_def batch_pad_length_def
      length_make_timesteps)

lemma out_tokens_row:
  assumes "event_stream_collate_fn batch res pu nti = Inr r" and "i < length batch"
  shows "\<exists>toks. make_tokens res (map events batch) = Inr toks \<and>
           out_tokens r ! i =
             toks ! i @ replicate (nat (batch_pad_length nti batch pu - sample_lengths nti batch ! i)) (- 1)"
proof -
  from collate_InrD(3)[OF assms(1)] obtain toks
    where mt: "make_tokens res (map events batch) = Inr toks"
      and ot: "out_tokens r = map (\<lambda>e. e @ replicate (nat (pad_length (map (\<lambda>e. int (length e))
                  (make_timesteps nti (map events batch))) pu - int (length e))) (- 1)) toks"
    by blast
  from make_tokens_Inr(2,3)[OF mt] assms(2)
  have "length toks = length batch" "length (toks ! i) = length (events (batch ! i)) - 1"
    by simp_all
  with ot mt assms(2) show ?thesis
    by (simp add: batch_pad_length_def sample_lengths_nth sample_lengths_def[symmetric])
qed

lemma length_out_rows:
  assumes "event_stream_collate_fn batch res pu nti = Inr r"
  shows "length (out_tokens r) = length batch" and "length (out_timesteps r) = length batch"
proof -
  from collate_InrD(3)[OF assms] obtain toks
    where mt: "make_tokens res (map events batch) = Inr toks"
      and ot: "length (out_tokens r) = length toks"
    by auto
  from make_tokens_Inr(2)[OF mt] ot show "length (out_tokens r) = length batch" by simp
  show "length (out_timesteps r) = length batch"
    by (simp add: collate_InrD(5)[OF assms] length_make_timesteps)
qed

lemma length_out_row:
  assumes "event_stream_collate_fn batch res pu nti = Inr r" and "i < length batch"
  shows "int (length (out_tokens r ! i)) = batch_pad_length nti batch pu"
    and "int (length (out_timesteps r ! i)) = batch_pad_length nti batch pu"
proof -
  note le = rows_le_pad_length[OF assms]
  from out_tokens_row[OF assms] obtain toks
    where mt: "make_tokens res (map events batch) = Inr toks"
      and row: "out_tokens r ! i =
             toks ! i @ replicate (nat (batch_pad_length nti batch pu - sample_lengths nti batch ! i)) (- 1)"
    by blast
  from make_tokens_Inr(3)[OF mt, of i] assms(2)
  have "int (length (toks ! i)) = sample_lengths nti batch ! i"
    by (simp add: sample_lengths_nth)
  with row le show "int (length (out_tokens r ! i)) = batch_pad_length nti batch pu"
    by simp
  have "int (length (make_timesteps nti (map events batch) ! i)) = sample_lengths nti batch ! i"
    using assms(2) by (simp add: sample_lengths_def length_make_timesteps)
  with le show "int (length (out_timesteps r ! i)) = batch_pad_length nti batch pu"
    by (simp add: out_timesteps_row[OF assms])
qed

lemma max_len_le_pad_length:
  assumes "event_stream_collate_fn batch res pu nti = Inr r"
  shows "max_len nti batch \<le> batch_pad_length nti batch pu"
proof -
  from collate_InrD(1)[OF assms] have ne: "set (sample_lengths nti batch) \<noteq> {}"
    by (simp add: sample_lengths_def make_timesteps_def)
  have "v \<le> batch_pad_length nti batch pu" if "v \<in> set (sample_lengths nti batch)" for v
  proof -
    from that obtain i where "i < length batch" "v = sample_lengths nti batch ! i"
      by (auto simp: in_set_conv_nth length_sample_lengths)
    with rows_le_pad_length[OF assms] show ?thesis by simp
  qed
  with ne show ?thesis
    by (simp add: max_len_def)
qed

lemma pad_unit_dvd_pad_length: "pu dvd batch_pad_length nti batch pu"
  by (simp add: batch_pad_length_def pad_length_def)

lemma pad_length_gt_max:
  "0 < pu \<Longrightarrow> max_len nti batch < batch_pad_length nti batch pu"
proof -
  assume "0 < pu"
  then have "m < (m div pu) * pu + pu" for m :: int
    using pos_mod_bound[of pu m] div_mult_mod_eq[of m pu] by linarith
  then show ?thesis
    by (simp add: batch_pad_length_def pad_length_def max_len_def)
qed

lemma timestep_value:
  assumes "event_stream_collate_fn batch res pu nti = Inr r"
    and "i < length batch" and "j < length (events (batch ! i)) - 1"
  shows "out_timesteps r ! i ! j =
           rat_of_int (make_timesteps nti (map events batch) ! i ! j) / 1000"
proof -
  have "length (make_timesteps nti (map events batch) ! i) = length (events (batch ! i)) - 1"
    using assms(2) by (simp add: length_row_make_timesteps)
  with assms(3) show ?thesis
    by (simp add: out_timesteps_row[OF assms(1,2)] nth_append)
qed

subsection \<open>Errors and termination with a result\<close>

lemma collect_np_pad_error:
  "collect (map (\<lambda>e. np_pad e (L - int (length e)) c) rows) = Inl err \<Longrightarrow> err = PadError"
  by (induction rows) (auto simp: np_pad_def split: if_splits sum.splits)

lemma pad_rows_error:
  "pad_rows rows L c = Inl err \<Longrightarrow> err = PadError \<or> err = StackError"
  by (auto simp: pad_rows_def np_stack_def split: sum.splits if_splits dest: collect_np_pad_error)

lemma make_tokens_error:
  "make_tokens res x = Inl err \<Longrightarrow> err = ResolutionError \<and> length res \<noteq> 1 \<and> length res \<noteq> 2"
  by (auto simp: make_tokens_def split: if_splits)

lemma unzip_aux_empty_iff:
  assumes "batch \<noteq> []"
  shows "unzip_aux batch = [] \<longleftrightarrow> (\<exists>s\<in>set batch. aux s = [])"
proof -
  let ?A = "set (map (\<lambda>s. length (aux s)) batch)"
  have fin: "finite ?A" and ne: "?A \<noteq> {}" using assms by simp_all
  have "unzip_aux batch = [] \<longleftrightarrow> Min ?A = 0"
    by (simp add: unzip_aux_def Let_def)
  also have "\<dots> \<longleftrightarrow> 0 \<in> ?A"
  proof
    assume "Min ?A = 0"
    with Min_in[OF fin ne] show "0 \<in> ?A" by simp
  next
    assume "0 \<in> ?A"
    from Min_le[OF fin this] show "Min ?A = 0" by simp
  qed
  also have "\<dots> \<longleftrightarrow> (\<exists>s\<in>set batch. aux s = [])"
    by auto
  finally show ?thesis .
qed

text \<open>Which error the routine ends in, and when.\<close>

lemma collate_error_cases:
  assumes "event_stream_collate_fn batch res pu nti = Inl err"
  shows "(err = UnpackError \<and> batch = []) \<or>
         (err = AssertionError \<and> batch \<noteq> [] \<and> unzip_aux batch \<noteq> []) \<or>
         (err = ResolutionError \<and> batch \<noteq> [] \<and> unzip_aux batch = [] \<and>
            length res \<noteq> 1 \<and> length res \<noteq> 2) \<or>
         ((err = PadError \<or> err = StackError) \<and> batch \<noteq> [] \<and> unzip_aux batch = [] \<and>
            (length res = 1 \<or> length res = 2))"
proof (cases "batch = []")
  case True
  with assms show ?thesis by (simp add: event_stream_collate_fn_def)
next
  case ne: False
  show ?thesis
  proof (cases "unzip_aux batch = []")
    case False
    with assms ne show ?thesis by (simp add: event_stream_collate_fn_def Let_def)
  next
    case z: True
    show ?thesis
    proof (cases "make_tokens res (map events batch)")
      case (Inl e)
      with assms ne z have "err = e" by (simp add: event_stream_collate_fn_def Let_def)
      with make_tokens_error[OF Inl] ne z show ?thesis by simp
    next
      case (Inr toks)
      from make_tokens_Inr(1)[OF Inr] have res: "length res = 1 \<or> length res = 2" .
      from assms ne z Inr have "err = PadError \<or> err = StackError"
        by (auto simp: event_stream_collate_fn_def Let_def split: sum.splits dest: pad_rows_error)
      with ne z res show ?thesis by simp
    qed
  qed
qed

text \<open>For a non-empty batch holding at least one pair, a resolution of one or two elements
  and a positive pad unit, the routine returns a result.\<close>

lemma collate_returns:
  assumes "batch \<noteq> []" and "\<exists>s\<in>set batch. aux s = []"
    and "length res = 1 \<or> length res = 2" and "0 < pu"
  shows "\<exists>r. event_stream_collate_fn batch res pu nti = Inr r"
proof (cases "event_stream_collate_fn batch res pu nti")
  case (Inr r)
  then show ?thesis by blast
next
  case (Inl err)
  from assms(1,2) have z: "unzip_aux batch = []" by (simp add: unzip_aux_empty_iff)
  from collate_error_cases[OF Inl] assms(1,3) z
  have "err = PadError \<or> err = StackError" by auto
  obtain toks where mt: "make_tokens res (map events batch) = Inr toks"
    using assms(3) by (auto simp: make_tokens_def)
  let ?ts = "make_timesteps nti (map events batch)"
  let ?L = "batch_pad_length nti batch pu"
  have le: "int (length (events (batch ! i)) - 1) \<le> ?L" if "i < length batch" for i
  proof -
    have "sample_lengths nti batch ! i \<le> max_len nti batch"
      using that by (simp add: max_len_def length_sample_lengths)
    with pad_length_gt_max[OF assms(4), of nti batch] that show ?thesis
      by (simp add: sample_lengths_nth)
  qed
  have ts_le: "\<forall>e\<in>set ?ts. int (length e) \<le> ?L"
  proof
    fix e assume "e \<in> set ?ts"
    then obtain i where "i < length batch" "e = ?ts ! i"
      by (auto simp: in_set_conv_nth length_make_timesteps)
    with le[of i] show "int (length e) \<le> ?L"
      by (simp add: length_row_make_timesteps)
  qed
  have toks_le: "\<forall>e\<in>set toks. int (length e) \<le> ?L"
  proof
    fix e assume "e \<in> set toks"
    then obtain i where "i < length batch" "e = toks ! i"
      using make_tokens_Inr(2)[OF mt] by (auto simp: in_set_conv_nth)
    with le[of i] make_tokens_Inr(3)[OF mt, of i] show "int (length e) \<le> ?L"
      by simp
  qed
  have "toks \<noteq> []" "?ts \<noteq> []"
    using assms(1) make_tokens_Inr(2)[OF mt] length_make_timesteps[of nti "map events batch"]
    by auto
  with pad_rows_ok[of toks ?L "- 1"] pad_rows_ok[of ?ts ?L 0] toks_le ts_le
  have "\<exists>a b. pad_rows toks ?L (- 1) = Inr a \<and> pad_rows ?ts ?L 0 = Inr b" by simp
  with Inl assms(1) z mt show ?thesis
    by (auto simp: event_stream_collate_fn_def Let_def batch_pad_length_def sample_lengths_def)
qed

subsection \<open>Rounding up to the pad unit\<close>

lemma ceiling_div_not_dvd:
  fixes m pu :: int
  assumes "0 < pu" and "\<not> pu dvd m"
  shows "\<lceil>rat_of_int m / rat_of_int pu\<rceil> = m div pu + 1"
proof -
  from assms have "m mod pu \<noteq> 0" by (simp add: dvd_eq_mod_eq_0)
  with assms(1) have "(- m) div pu = - (m div pu) - 1"
    by (simp add: zdiv_zminus1_eq_if)
  then show ?thesis
    by (simp add: ceiling_divide_eq_div)
qed

lemma ceiling_div_dvd:
  fixes m pu :: int
  assumes "0 < pu" and "pu dvd m"
  shows "\<lceil>rat_of_int m / rat_of_int pu\<rceil> * pu = m"
  using assms by (auto simp: ceiling_divide_eq_div elim!: dvdE)

subsection \<open>Token values\<close>

text \<open>What the two branches of the token computation return at a non-padded position.\<close>

lemma token_value_two_dims:
  assumes "event_stream_collate_fn batch [w, h] pu nti = Inr r"
    and "i < length batch" and "j < length (events (batch ! i)) - 1"
  shows "out_tokens r ! i ! j =
           astype_int32 (ev_x (events (batch ! i) ! j) * ev_y (events (batch ! i) ! j) +
                         w * h * astype_int32 (ev_p (events (batch ! i) ! j)))"
proof -
  from out_tokens_row[OF assms(1,2)] obtain toks
    where mt: "make_tokens [w, h] (map events batch) = Inr toks"
      and row: "out_tokens r ! i = toks ! i @
          replicate (nat (batch_pad_length nti batch pu - sample_lengths nti batch ! i)) (- 1)"
    by blast
  from mt have toks: "toks = map (\<lambda>e. map (\<lambda>v. astype_int32
                 (ev_x v * ev_y v + np_prod [w, h] * astype_int32 (ev_p v))) (butlast e))
                 (map events batch)"
    by (simp add: make_tokens_def)
  from assms(2,3) show ?thesis
    by (simp add: row toks nth_append nth_butlast np_prod_def)
qed

lemma token_value_one_dim:
  assumes "event_stream_collate_fn batch [w] pu nti = Inr r"
    and "i < length batch" and "j < length (events (batch ! i)) - 1"
  shows "out_tokens r ! i ! j = astype_int32 (ev_x (events (batch ! i) ! j))"
proof -
  from out_tokens_row[OF assms(1,2)] obtain toks
    where mt: "make_tokens [w] (map events batch) = Inr toks"
      and row: "out_tokens r ! i = toks ! i @
          replicate (nat (batch_pad_length nti batch pu - sample_lengths nti batch ! i)) (- 1)"
    by blast
  from mt have toks: "toks = map (\<lambda>e. map (\<lambda>v. astype_int32 (ev_x v)) (butlast e))
                 (map events batch)"
    by (simp add: make_tokens_def)
  from assms(2,3) show ?thesis
    by (simp add: row toks nth_append nth_butlast)
qed

subsection \<open>Runs on the concrete batches\<close>

lemma run_pair_batch:
  "event_stream_collate_fn pair_batch [128, 128] 4 False =
     Inr \<lparr> out_tokens = [[16399, 1, - 1, - 1], [0, - 1, - 1, - 1]],
           out_labels = [7, 3],
           out_timesteps = [[2, 1 / 2, 0, 0], [3 / 10, 0, 0, 0]],
           out_lengths = Vector [2, 1] \<rparr>"
  by code_simp

lemma run_pair_batch_no_time:
  "event_stream_collate_fn pair_batch [128, 128] 4 True =
     Inr \<lparr> out_tokens = [[16399, 1, - 1, - 1], [0, - 1, - 1, - 1]],
           out_labels = [7, 3],
           out_timesteps = [[1 / 1000, 1 / 1000, 0, 0], [1 / 1000, 0, 0, 0]],
           out_lengths = Vector [2, 1] \<rparr>"
  by code_simp

lemma run_single_batch:
  "event_stream_collate_fn single_batch [128, 128] 4 False =
     Inr \<lparr> out_tokens = [[16399, 1, - 1, - 1]],
           out_labels = [7],
           out_timesteps = [[2, 1 / 2, 0, 0]],
           out_lengths = Matrix [[2]] \<rparr>"
  by code_simp

lemma run_empty_sample_batch:
  "event_stream_collate_fn empty_sample_batch [700] 4 False =
     Inr \<lparr> out_tokens = [[- 1, - 1, - 1, - 1]],
           out_labels = [0],
           out_timesteps = [[0, 0, 0, 0]],
           out_lengths = Matrix [[0]] \<rparr>"
  by code_simp

lemma run_audio_batch:
  "event_stream_collate_fn audio_batch [700] 4 False =
     Inr \<lparr> out_tokens = [[10, 20, 30, 40, - 1, - 1, - 1, - 1]],
           out_labels = [2],
           out_timesteps = [[1 / 100, 1 / 50, 3 / 100, 1 / 25, 0, 0, 0, 0]],
           out_lengths = Matrix [[4]] \<rparr>"
  by code_simp

lemma run_mixed_batch:
  "event_stream_collate_fn mixed_batch [128, 128] 4 False =
     Inr \<lparr> out_tokens = [[16399, 1, - 1, - 1], [0, - 1, - 1, - 1]],
           out_labels = [7, 3],
           out_timesteps = [[2, 1 / 2, 0, 0], [3 / 10, 0, 0, 0]],
           out_lengths = Vector [2, 1] \<rparr>"
  by code_simp

lemma run_triple_batch:
  "event_stream_collate_fn triple_batch [128, 128] 4 False = Inl AssertionError"
  by code_simp

lemma run_bad_resolution:
  "event_stream_collate_fn pair_batch [128, 128, 2] 4 False = Inl ResolutionError"
  by code_simp

section \<open>The claims\<close>

subsection \<open>C4: shape of the token and timestep arrays\<close>

text \<open>
  Claim C4. Whenever the routine returns, the token array and the timestep array both have
  one row per sample of the batch, and every row of both has the same length, the pad length
  of the batch. The pad length is a multiple of the pad unit and is not below the longest
  sample length, neither the longest entry of the returned length vector nor (for a positive
  pad unit) the raw event count of any sample.
\<close>

theorem C4_shapes:
  assumes "event_stream_collate_fn batch res pu nti = Inr r"
  shows "length (out_tokens r) = length batch \<and>
         length (out_timesteps r) = length batch \<and>
         (\<forall>i<length batch.
            int (length (out_tokens r ! i)) = batch_pad_length nti batch pu \<and>
            int (length (out_timesteps r ! i)) = batch_pad_length nti batch pu) \<and>
         pu dvd batch_pad_length nti batch pu \<and>
         max_len nti batch \<le> batch_pad_length nti batch pu \<and>
         (\<forall>i<length batch. flat (out_lengths r) ! i \<le> batch_pad_length nti batch pu) \<and>
         (0 < pu \<longrightarrow> (\<forall>i<length batch.
            int (length (events (batch ! i))) \<le> batch_pad_length nti batch pu))"
proof (intro conjI allI impI)
  show "length (out_tokens r) = length batch" "length (out_timesteps r) = length batch"
    by (rule length_out_rows[OF assms])+
  show "pu dvd batch_pad_length nti batch pu"
    by (rule pad_unit_dvd_pad_length)
  show "max_len nti batch \<le> batch_pad_length nti batch pu"
    by (rule max_len_le_pad_length[OF assms])
next
  fix i assume i: "i < length batch"
  show "int (length (out_tokens r ! i)) = batch_pad_length nti batch pu"
    "int (length (out_timesteps r ! i)) = batch_pad_length nti batch pu"
    by (rule length_out_row[OF assms i])+
  show "flat (out_lengths r) ! i \<le> batch_pad_length nti batch pu"
    using rows_le_pad_length[OF assms i] by (simp add: out_lengths_flat[OF assms])
next
  fix i assume pu: "0 < pu" and i: "i < length batch"
  have "sample_lengths nti batch ! i \<le> max_len nti batch"
    using i by (simp add: max_len_def length_sample_lengths)
  with pad_length_gt_max[OF pu, of nti batch]
  have "sample_lengths nti batch ! i < batch_pad_length nti batch pu" by simp
  then show "int (length (events (batch ! i))) \<le> batch_pad_length nti batch pu"
    using i by (simp add: sample_lengths_nth)
qed

theorem C4_shapes_witness:
  "event_stream_collate_fn pair_batch [128, 128] 4 False =
     Inr \<lparr> out_tokens = [[16399, 1, - 1, - 1], [0, - 1, - 1, - 1]],
           out_labels = [7, 3],
           out_timesteps = [[2, 1 / 2, 0, 0], [3 / 10, 0, 0, 0]],
           out_lengths = Vector [2, 1] \<rparr> \<and>
   batch_pad_length False pair_batch 4 = 4 \<and> max_len False pair_batch = 2 \<and>
   (0::int) < 4 \<and> length pair_batch = 2"
proof -
  have pl: "batch_pad_length False pair_batch 4 = 4" by code_simp
  have ml: "max_len False pair_batch = 2" by code_simp
  have n: "length pair_batch = 2" by code_simp
  from C4_shapes[OF run_pair_batch] run_pair_batch pl ml n show ?thesis by simp
qed

subsection \<open>C5: padded positions\<close>

text \<open>
  Claim C5. In every row of a returned batch, a position at or beyond the length of the
  sample (one less than its event count, so in particular any position at or beyond the
  event count itself) and inside the row holds the token \<open>-1\<close> and the timestep \<open>0\<close>.
\<close>

theorem C5_padding_values:
  assumes "event_stream_collate_fn batch res pu nti = Inr r"
    and "i < length batch"
    and "length (events (batch ! i)) - 1 \<le> j"
    and "int j < batch_pad_length nti batch pu"
  shows "out_tokens r ! i ! j = - 1 \<and> out_timesteps r ! i ! j = 0"
proof -
  let ?n = "length (events (batch ! i)) - 1"
  let ?L = "batch_pad_length nti batch pu"
  have sl: "sample_lengths nti batch ! i = int ?n"
    by (rule sample_lengths_nth[OF assms(2)])
  have k: "j - ?n < nat (?L - int ?n)"
    using assms(3,4) by linarith
  from out_tokens_row[OF assms(1,2)] obtain toks
    where mt: "make_tokens res (map events batch) = Inr toks"
      and row: "out_tokens r ! i = toks ! i @ replicate (nat (?L - sample_lengths nti batch ! i)) (- 1)"
    by blast
  from make_tokens_Inr(3)[OF mt, of i] assms(2) have lt: "length (toks ! i) = ?n" by simp
  have "out_tokens r ! i ! j = - 1"
    using assms(3) k by (simp add: row sl nth_append lt)
  moreover
  have "length (make_timesteps nti (map events batch) ! i) = ?n"
    using assms(2) by (simp add: length_row_make_timesteps)
  then have "out_timesteps r ! i ! j = 0"
    using assms(3,4) k length_out_row(2)[OF assms(1,2)]
    by (simp add: out_timesteps_row[OF assms(1,2)] sl nth_append)
  ultimately show ?thesis by simp
qed

theorem C5_padding_values_witness:
  "event_stream_collate_fn pair_batch [128, 128] 4 False =
     Inr \<lparr> out_tokens = [[16399, 1, - 1, - 1], [0, - 1, - 1, - 1]],
           out_labels = [7, 3],
           out_timesteps = [[2, 1 / 2, 0, 0], [3 / 10, 0, 0, 0]],
           out_lengths = Vector [2, 1] \<rparr> \<and>
   (1::nat) < length pair_batch \<and> length (events (pair_batch ! 1)) - 1 \<le> (1::nat) \<and>
   int 1 < batch_pad_length False pair_batch 4 \<and>
   [[16399, 1, - 1, - 1], [0, - 1, - 1, - 1]] ! 1 ! 1 = (- 1::int) \<and>
   [[2, 1 / 2, 0, 0], [3 / 10, 0, 0, 0]] ! 1 ! 1 = (0::rat)"
proof -
  have i: "(1::nat) < length pair_batch" by code_simp
  have j: "length (events (pair_batch ! 1)) - 1 \<le> (1::nat)" by code_simp
  have pl: "batch_pad_length False pair_batch 4 = 4" by code_simp
  have b: "int 1 < batch_pad_length False pair_batch 4" by (simp add: pl)
  from C5_padding_values[OF run_pair_batch i j b] run_pair_batch i j b show ?thesis by simp
qed

subsection \<open>C7: timesteps in the default mode\<close>

text \<open>
  Claim C7. In the default mode (time information kept), the returned timestep of sample
  \<open>i\<close> at a non-padded position \<open>j\<close> is the difference of the consecutive raw timestamps
  \<open>t[j+1] - t[j]\<close> of that sample, divided by 1000 (microseconds to milliseconds).
\<close>

theorem C7_time_deltas:
  assumes "event_stream_collate_fn batch res pu False = Inr r"
    and "i < length batch" and "Suc j < length (events (batch ! i))"
  shows "out_timesteps r ! i ! j =
           rat_of_int (ev_t (events (batch ! i) ! Suc j) - ev_t (events (batch ! i) ! j)) / 1000"
proof -
  from assms(3) have j: "j < length (events (batch ! i)) - 1" by simp
  have "make_timesteps False (map events batch) ! i ! j =
          ev_t (events (batch ! i) ! Suc j) - ev_t (events (batch ! i) ! j)"
    using assms(2,3) by (simp add: make_timesteps_def nth_np_diff)
  with timestep_value[OF assms(1,2) j] show ?thesis by simp
qed

theorem C7_time_deltas_witness:
  "event_stream_collate_fn pair_batch [128, 128] 4 False =
     Inr \<lparr> out_tokens = [[16399, 1, - 1, - 1], [0, - 1, - 1, - 1]],
           out_labels = [7, 3],
           out_timesteps = [[2, 1 / 2, 0, 0], [3 / 10, 0, 0, 0]],
           out_lengths = Vector [2, 1] \<rparr> \<and>
   (0::nat) < length pair_batch \<and> Suc 1 < length (events (pair_batch ! 0)) \<and>
   [[2, 1 / 2, 0, 0], [3 / 10, 0, 0, 0]] ! 0 ! 1 = rat_of_int (2500 - 2000) / 1000"
proof -
  have i: "(0::nat) < length pair_batch" by code_simp
  have j: "Suc 1 < length (events (pair_batch ! 0))" by code_simp
  have t: "ev_t (events (pair_batch ! 0) ! Suc 1) = 2500" "ev_t (events (pair_batch ! 0) ! 1) = 2000"
    by code_simp+
  from C7_time_deltas[OF run_pair_batch i j] run_pair_batch i j t show ?thesis by simp
qed

subsection \<open>C3: timesteps without time information\<close>

text \<open>
  Claim C3 says that without time information every non-padded timestep returned is the
  constant 1. The routine divides the timestep array by 1000 in both modes, after padding, so
  the value returned is \<open>1/1000\<close>: on the two-sample batch the first returned timestep is
  \<open>1/1000\<close>, not 1.
\<close>

theorem C3_no_time_counterexample:
  "event_stream_collate_fn pair_batch [128, 128] 4 True =
     Inr \<lparr> out_tokens = [[16399, 1, - 1, - 1], [0, - 1, - 1, - 1]],
           out_labels = [7, 3],
           out_timesteps = [[1 / 1000, 1 / 1000, 0, 0], [1 / 1000, 0, 0, 0]],
           out_lengths = Vector [2, 1] \<rparr> \<and>
   [[1 / 1000, 1 / 1000, 0, 0], [1 / 1000, 0, 0, 0]] ! 0 ! 0 \<noteq> (1::rat)"
  using run_pair_batch_no_time by simp

text \<open>
  Claim C3, amended. Without time information, every non-padded timestep is the constant 1
  before the rescaling from microseconds to milliseconds, and the routine returns it
  rescaled like any other timestep, as \<open>1/1000\<close>.
\<close>

theorem C3_no_time_constant:
  assumes "event_stream_collate_fn batch res pu True = Inr r"
    and "i < length batch" and "j < length (events (batch ! i)) - 1"
  shows "make_timesteps True (map events batch) ! i ! j = 1 \<and>
         out_timesteps r ! i ! j = 1 / 1000"
proof -
  have one: "make_timesteps True (map events batch) ! i ! j = 1"
    using assms(2,3) by (simp add: make_timesteps_def ones_like_def)
  with timestep_value[OF assms] show ?thesis by simp
qed

theorem C3_no_time_constant_witness:
  "event_stream_collate_fn pair_batch [128, 128] 4 True =
     Inr \<lparr> out_tokens = [[16399, 1, - 1, - 1], [0, - 1, - 1, - 1]],
           out_labels = [7, 3],
           out_timesteps = [[1 / 1000, 1 / 1000, 0, 0], [1 / 1000, 0, 0, 0]],
           out_lengths = Vector [2, 1] \<rparr> \<and>
   (0::nat) < length pair_batch \<and> (1::nat) < length (events (pair_batch ! 0)) - 1 \<and>
   make_timesteps True (map events pair_batch) ! 0 ! 1 = 1 \<and>
   [[1 / 1000, 1 / 1000, 0, 0], [1 / 1000, 0, 0, 0]] ! 0 ! 1 = (1 / 1000 :: rat)"
proof -
  have i: "(0::nat) < length pair_batch" by code_simp
  have j: "(1::nat) < length (events (pair_batch ! 0)) - 1" by code_simp
  from C3_no_time_constant[OF run_pair_batch_no_time i j] run_pair_batch_no_time i j
  show ?thesis by simp
qed

subsection \<open>C6: the length vector\<close>

text \<open>
  Claim C6 says that the length recorded for every sample is its event count minus one. The
  slice \<^verbatim>\<open>[:-1]\<close> and \<^verbatim>\<open>np.diff\<close> of an array without events are empty, so a sample without
  events is recorded with length 0, not \<open>-1\<close>.
\<close>

theorem C6_lengths_counterexample:
  "event_stream_collate_fn empty_sample_batch [700] 4 False =
     Inr \<lparr> out_tokens = [[- 1, - 1, - 1, - 1]],
           out_labels = [0],
           out_timesteps = [[0, 0, 0, 0]],
           out_lengths = Matrix [[0]] \<rparr> \<and>
   flat (Matrix [[0]]) ! 0 = 0 \<and>
   int (length (events (empty_sample_batch ! 0))) - 1 = - 1"
  using run_empty_sample_batch by (simp add: empty_sample_batch_def)

text \<open>
  Claim C6, amended. For every sample \<open>i\<close> of a returned batch the entry \<open>i\<close> of the length
  vector is the event count of the sample minus one, but never below zero: it is
  \<open>len(events[i]) - 1\<close> for every sample that has at least one event, and 0 for a sample
  without events.
\<close>

theorem C6_lengths:
  assumes "event_stream_collate_fn batch res pu nti = Inr r" and "i < length batch"
  shows "flat (out_lengths r) ! i = max 0 (int (length (events (batch ! i))) - 1) \<and>
         (events (batch ! i) \<noteq> [] \<longrightarrow>
            flat (out_lengths r) ! i = int (length (events (batch ! i))) - 1)"
proof -
  have "flat (out_lengths r) ! i = int (length (events (batch ! i)) - 1)"
    by (simp add: out_lengths_flat[OF assms(1)] sample_lengths_nth[OF assms(2)])
  then show ?thesis
    by (cases "events (batch ! i)") auto
qed

theorem C6_lengths_witness:
  "event_stream_collate_fn pair_batch [128, 128] 4 False =
     Inr \<lparr> out_tokens = [[16399, 1, - 1, - 1], [0, - 1, - 1, - 1]],
           out_labels = [7, 3],
           out_timesteps = [[2, 1 / 2, 0, 0], [3 / 10, 0, 0, 0]],
           out_lengths = Vector [2, 1] \<rparr> \<and>
   (0::nat) < length pair_batch \<and> events (pair_batch ! 0) \<noteq> [] \<and>
   flat (Vector [2, 1]) ! 0 = int (length (events (pair_batch ! 0))) - 1"
proof -
  have i: "(0::nat) < length pair_batch" by code_simp
  have ne: "events (pair_batch ! 0) \<noteq> []" by code_simp
  from C6_lengths[OF run_pair_batch i] run_pair_batch i ne show ?thesis by simp
qed

subsection \<open>C9: the length vector of a single-sample batch\<close>

text \<open>
  Claim C9. For a batch of exactly one sample the returned length vector has an explicit
  leading batch dimension of size 1 (shape \<open>(1, 1)\<close>, holding the single length); for any
  other batch it is the one-dimensional vector with one entry per sample.
\<close>

theorem C9_single_sample_lengths:
  assumes "event_stream_collate_fn batch res pu nti = Inr r"
  shows "(length batch = 1 \<longrightarrow>
            out_lengths r = Matrix [[int (length (events (batch ! 0)) - 1)]] \<and>
            shape (out_lengths r) = [1, 1]) \<and>
         (length batch \<noteq> 1 \<longrightarrow>
            out_lengths r = Vector (sample_lengths nti batch) \<and>
            shape (out_lengths r) = [length batch])"
proof (intro conjI impI)
  assume one: "length batch = 1"
  then have "sample_lengths nti batch = [int (length (events (batch ! 0)) - 1)]"
    using sample_lengths_nth[of 0 batch nti] length_sample_lengths[of nti batch]
    by (cases "sample_lengths nti batch") auto
  with one collate_InrD(7)[OF assms]
  show "out_lengths r = Matrix [[int (length (events (batch ! 0)) - 1)]]"
    by (simp add: sample_lengths_def)
  then show "shape (out_lengths r) = [1, 1]" by simp
next
  assume more: "length batch \<noteq> 1"
  with collate_InrD(7)[OF assms] show "out_lengths r = Vector (sample_lengths nti batch)"
    by (simp add: sample_lengths_def)
  then show "shape (out_lengths r) = [length batch]"
    by (simp add: length_sample_lengths)
qed

theorem C9_single_sample_lengths_witness:
  "event_stream_collate_fn single_batch [128, 128] 4 False =
     Inr \<lparr> out_tokens = [[16399, 1, - 1, - 1]],
           out_labels = [7],
           out_timesteps = [[2, 1 / 2, 0, 0]],
           out_lengths = Matrix [[2]] \<rparr> \<and>
   length single_batch = 1 \<and> shape (Matrix [[2]]) = [1, 1] \<and>
   event_stream_collate_fn pair_batch [128, 128] 4 False =
     Inr \<lparr> out_tokens = [[16399, 1, - 1, - 1], [0, - 1, - 1, - 1]],
           out_labels = [7, 3],
           out_timesteps = [[2, 1 / 2, 0, 0], [3 / 10, 0, 0, 0]],
           out_lengths = Vector [2, 1] \<rparr> \<and>
   length pair_batch \<noteq> 1 \<and> shape (Vector [2, 1]) = [length pair_batch]"
proof -
  have one: "length single_batch = 1" by code_simp
  have two: "length pair_batch = 2" by code_simp
  have s1: "shape (Matrix [[2]]) = [1, 1]"
    using C9_single_sample_lengths[OF run_single_batch] one by simp
  have s2: "shape (Vector [2, 1]) = [length pair_batch]"
    using C9_single_sample_lengths[OF run_pair_batch] by (simp add: two length_sample_lengths)
  from run_single_batch run_pair_batch one two s1 s2 show ?thesis by simp
qed

subsection \<open>C8: the arity of the resolution\<close>

text \<open>
  Claim C8. For a resolution with a number of elements other than 1 or 2 the routine returns
  no result: it ends in an error, and for a batch that passes the unpacking and the assertion
  this error is the one raised for the resolution. For a resolution of exactly 1 or 2
  elements that error is never raised.
\<close>

theorem C8_resolution_arity:
  "(length res \<noteq> 1 \<and> length res \<noteq> 2 \<longrightarrow>
      (\<exists>err. event_stream_collate_fn batch res pu nti = Inl err) \<and>
      (batch \<noteq> [] \<and> (\<exists>s\<in>set batch. aux s = []) \<longrightarrow>
         event_stream_collate_fn batch res pu nti = Inl ResolutionError)) \<and>
   (length res = 1 \<or> length res = 2 \<longrightarrow>
      event_stream_collate_fn batch res pu nti \<noteq> Inl ResolutionError)"
proof (intro conjI impI)
  assume bad: "length res \<noteq> 1 \<and> length res \<noteq> 2"
  show "\<exists>err. event_stream_collate_fn batch res pu nti = Inl err"
  proof (cases "event_stream_collate_fn batch res pu nti")
    case (Inl err)
    then show ?thesis by blast
  next
    case (Inr r)
    from collate_InrD(3)[OF Inr] obtain toks
      where "make_tokens res (map events batch) = Inr toks" by blast
    from make_tokens_Inr(1)[OF this] bad show ?thesis by simp
  qed
next
  assume bad: "length res \<noteq> 1 \<and> length res \<noteq> 2"
    and wf: "batch \<noteq> [] \<and> (\<exists>s\<in>set batch. aux s = [])"
  then have "unzip_aux batch = []" by (simp add: unzip_aux_empty_iff)
  moreover from bad have "make_tokens res (map events batch) = Inl ResolutionError"
    by (simp add: make_tokens_def)
  ultimately show "event_stream_collate_fn batch res pu nti = Inl ResolutionError"
    using wf by (simp add: event_stream_collate_fn_def Let_def)
next
  assume ok: "length res = 1 \<or> length res = 2"
  show "event_stream_collate_fn batch res pu nti \<noteq> Inl ResolutionError"
  proof
    assume "event_stream_collate_fn batch res pu nti = Inl ResolutionError"
    from collate_error_cases[OF this] ok show False by auto
  qed
qed

theorem C8_resolution_arity_witness:
  "length [128, 128, 2 :: int] \<noteq> 1 \<and> length [128, 128, 2 :: int] \<noteq> 2 \<and>
   pair_batch \<noteq> [] \<and> aux (pair_batch ! 0) = [] \<and>
   event_stream_collate_fn pair_batch [128, 128, 2] 4 False = Inl ResolutionError \<and>
   (length [128, 128 :: int] = 1 \<or> length [128, 128 :: int] = 2) \<and>
   event_stream_collate_fn pair_batch [128, 128] 4 False \<noteq> Inl ResolutionError"
proof -
  have ne: "pair_batch \<noteq> []" and a0: "aux (pair_batch ! 0) = []" by code_simp+
  have ex: "\<exists>s\<in>set pair_batch. aux s = []"
    by (simp add: pair_batch_def)
  have bad: "length [128, 128, 2 :: int] \<noteq> 1 \<and> length [128, 128, 2 :: int] \<noteq> 2" by simp
  have ok: "length [128, 128 :: int] = 1 \<or> length [128, 128 :: int] = 2" by simp
  from C8_resolution_arity[of "[128, 128, 2]" pair_batch 4 False] bad ne ex
  have 1: "event_stream_collate_fn pair_batch [128, 128, 2] 4 False = Inl ResolutionError"
    by blast
  from C8_resolution_arity[of "[128, 128]" pair_batch 4 False] ok
  have 2: "event_stream_collate_fn pair_batch [128, 128] 4 False \<noteq> Inl ResolutionError"
    by blast
  from 1 2 ne a0 bad ok show ?thesis by blast
qed

subsection \<open>C10: pairs and labels\<close>

text \<open>
  Claim C10 says that the assertion fails as soon as any element of the batch carries a third
  component. \<^verbatim>\<open>zip(*batch)\<close> stops at the shortest element, so in a batch that mixes a triple
  with a pair the third component is dropped silently, the assertion holds and a result is
  returned.
\<close>

theorem C10_mixed_batch_counterexample:
  "aux (mixed_batch ! 0) = [9] \<and>
   event_stream_collate_fn mixed_batch [128, 128] 4 False =
     Inr \<lparr> out_tokens = [[16399, 1, - 1, - 1], [0, - 1, - 1, - 1]],
           out_labels = [7, 3],
           out_timesteps = [[2, 1 / 2, 0, 0], [3 / 10, 0, 0, 0]],
           out_lengths = Vector [2, 1] \<rparr>"
  using run_mixed_batch by (simp add: mixed_batch_def)

text \<open>
  Claim C10, amended. If every element of a non-empty batch carries a third component, the
  assertion fails and no output is produced. If all elements are pairs, the assertion never
  fires, and the labels of any returned result are the labels of the samples in batch order.
\<close>

theorem C10_pairs_and_labels:
  "(batch \<noteq> [] \<and> (\<forall>s\<in>set batch. aux s \<noteq> []) \<longrightarrow>
      event_stream_collate_fn batch res pu nti = Inl AssertionError) \<and>
   ((\<forall>s\<in>set batch. aux s = []) \<longrightarrow>
      event_stream_collate_fn batch res pu nti \<noteq> Inl AssertionError \<and>
      (\<forall>r. event_stream_collate_fn batch res pu nti = Inr r \<longrightarrow>
         out_labels r = map label batch))"
proof (intro conjI impI allI)
  assume "batch \<noteq> [] \<and> (\<forall>s\<in>set batch. aux s \<noteq> [])"
  then have "batch \<noteq> []" "unzip_aux batch \<noteq> []"
    by (simp_all add: unzip_aux_empty_iff)
  then show "event_stream_collate_fn batch res pu nti = Inl AssertionError"
    by (simp add: event_stream_collate_fn_def Let_def)
next
  assume pairs: "\<forall>s\<in>set batch. aux s = []"
  show "event_stream_collate_fn batch res pu nti \<noteq> Inl AssertionError"
  proof
    assume "event_stream_collate_fn batch res pu nti = Inl AssertionError"
    from collate_error_cases[OF this] have ne: "batch \<noteq> []" and z: "unzip_aux batch \<noteq> []"
      by auto
    from ne pairs have "\<exists>s\<in>set batch. aux s = []" by (cases batch) auto
    with ne z show False by (simp add: unzip_aux_empty_iff)
  qed
next
  fix r assume "event_stream_collate_fn batch res pu nti = Inr r"
  then show "out_labels r = map label batch" by (rule collate_InrD(6))
qed

theorem C10_pairs_and_labels_witness:
  "triple_batch \<noteq> [] \<and> aux (triple_batch ! 0) \<noteq> [] \<and> aux (triple_batch ! 1) \<noteq> [] \<and>
   length triple_batch = 2 \<and>
   event_stream_collate_fn triple_batch [128, 128] 4 False = Inl AssertionError \<and>
   aux (pair_batch ! 0) = [] \<and> aux (pair_batch ! 1) = [] \<and> length pair_batch = 2 \<and>
   event_stream_collate_fn pair_batch [128, 128] 4 False =
     Inr \<lparr> out_tokens = [[16399, 1, - 1, - 1], [0, - 1, - 1, - 1]],
           out_labels = [7, 3],
           out_timesteps = [[2, 1 / 2, 0, 0], [3 / 10, 0, 0, 0]],
           out_lengths = Vector [2, 1] \<rparr> \<and>
   map label pair_batch = [7, 3]"
proof -
  have t: "triple_batch \<noteq> [] \<and> (\<forall>s\<in>set triple_batch. aux s \<noteq> [])"
    by (simp add: triple_batch_def)
  have p: "\<forall>s\<in>set pair_batch. aux s = []"
    by (simp add: pair_batch_def)
  have basics: "triple_batch \<noteq> []" "aux (triple_batch ! 0) \<noteq> []" "aux (triple_batch ! 1) \<noteq> []"
    "length triple_batch = 2" "aux (pair_batch ! 0) = []" "aux (pair_batch ! 1) = []"
    "length pair_batch = 2"
    by (simp_all add: triple_batch_def pair_batch_def)
  from C10_pairs_and_labels[of triple_batch "[128, 128]" 4 False] t
  have 1: "event_stream_collate_fn triple_batch [128, 128] 4 False = Inl AssertionError"
    by blast
  from C10_pairs_and_labels[of pair_batch "[128, 128]" 4 False] p run_pair_batch
  have 2: "out_labels \<lparr> out_tokens = [[16399, 1, - 1, - 1], [0, - 1, - 1, - 1]],
           out_labels = [7, 3],
           out_timesteps = [[2, 1 / 2, 0, 0], [3 / 10, 0, 0, 0]],
           out_lengths = Vector [2, 1] \<rparr> = map label pair_batch"
    by blast
  from 1 2 basics run_pair_batch show ?thesis by simp
qed

subsection \<open>C2: the pad length\<close>

text \<open>
  Claim C2 gives the pad length as \<open>ceil(max_len / pad_unit) * pad_unit\<close>, with at least one
  full pad unit added. The routine computes \<open>(max_len // pad_unit) * pad_unit + pad_unit\<close>.
  When the pad unit divides the longest length the two differ: five events give four
  deltas, and with a pad unit of 4 the rows are 8 long while the ceiling formula gives 4. Nor
  is a full pad unit added on top of the ceiling: deltas of length at most 2 with a pad unit
  of 4 are padded to 4, not to 8.
\<close>

theorem C2_pad_length_counterexample:
  "event_stream_collate_fn audio_batch [700] 4 False =
     Inr \<lparr> out_tokens = [[10, 20, 30, 40, - 1, - 1, - 1, - 1]],
           out_labels = [2],
           out_timesteps = [[1 / 100, 1 / 50, 3 / 100, 1 / 25, 0, 0, 0, 0]],
           out_lengths = Matrix [[4]] \<rparr> \<and>
   max_len False audio_batch = 4 \<and>
   batch_pad_length False audio_batch 4 = 8 \<and>
   \<lceil>rat_of_int 4 / rat_of_int 4\<rceil> * 4 = (4::int) \<and>
   max_len False pair_batch = 2 \<and>
   batch_pad_length False pair_batch 4 = 4 \<and>
   \<lceil>rat_of_int 2 / rat_of_int 4\<rceil> * 4 + 4 = (8::int)"
proof -
  have "max_len False audio_batch = 4" "batch_pad_length False audio_batch 4 = 8"
    "max_len False pair_batch = 2" "batch_pad_length False pair_batch 4 = 4"
    by code_simp+
  moreover have "\<lceil>rat_of_int 4 / rat_of_int 4\<rceil> * 4 = (4::int)"
    "\<lceil>rat_of_int 2 / rat_of_int 4\<rceil> * 4 + 4 = (8::int)"
    using ceiling_div_not_dvd[of 4 2] by simp_all
  ultimately show ?thesis using run_audio_batch by simp
qed

text \<open>
  Claim C2, amended. For a positive pad unit, every row of a returned batch has the pad
  length \<open>floor(max_len / pad_unit) * pad_unit + pad_unit\<close>, where \<open>max_len\<close> is the length of
  the longest per-sample delta sequence: the least multiple of the pad unit strictly above
  \<open>max_len\<close>. It equals \<open>ceil(max_len / pad_unit) * pad_unit\<close> when the pad unit does not
  divide \<open>max_len\<close>, and \<open>max_len + pad_unit\<close> when it does.
\<close>

theorem C2_pad_length:
  assumes "event_stream_collate_fn batch res pu nti = Inr r" and "0 < pu"
  shows "(\<forall>i<length batch.
            int (length (out_tokens r ! i)) = batch_pad_length nti batch pu \<and>
            int (length (out_timesteps r ! i)) = batch_pad_length nti batch pu) \<and>
         batch_pad_length nti batch pu = (max_len nti batch div pu) * pu + pu \<and>
         batch_pad_length nti batch pu =
           (if pu dvd max_len nti batch then max_len nti batch + pu
            else \<lceil>rat_of_int (max_len nti batch) / rat_of_int pu\<rceil> * pu) \<and>
         pu dvd batch_pad_length nti batch pu \<and>
         max_len nti batch < batch_pad_length nti batch pu \<and>
         batch_pad_length nti batch pu \<le> max_len nti batch + pu"
proof (intro conjI allI impI)
  fix i assume i: "i < length batch"
  show "int (length (out_tokens r ! i)) = batch_pad_length nti batch pu"
    "int (length (out_timesteps r ! i)) = batch_pad_length nti batch pu"
    by (rule length_out_row[OF assms(1) i])+
next
  let ?m = "max_len nti batch"
  show eq: "batch_pad_length nti batch pu = (?m div pu) * pu + pu"
    by (simp add: batch_pad_length_def pad_length_def max_len_def)
  show "batch_pad_length nti batch pu =
           (if pu dvd ?m then ?m + pu else \<lceil>rat_of_int ?m / rat_of_int pu\<rceil> * pu)"
  proof (cases "pu dvd ?m")
    case True
    then show ?thesis by (auto simp: eq elim!: dvdE)
  next
    case False
    with ceiling_div_not_dvd[OF assms(2) False] show ?thesis
      by (simp add: eq algebra_simps)
  qed
  show "pu dvd batch_pad_length nti batch pu"
    by (rule pad_unit_dvd_pad_length)
  show "?m < batch_pad_length nti batch pu"
    by (rule pad_length_gt_max[OF assms(2)])
  have "(?m div pu) * pu \<le> ?m"
    using assms(2) div_mult_mod_eq[of ?m pu] pos_mod_sign[of pu ?m] by linarith
  then show "batch_pad_length nti batch pu \<le> ?m + pu"
    by (simp add: eq)
qed

theorem C2_pad_length_witness:
  "event_stream_collate_fn audio_batch [700] 4 False =
     Inr \<lparr> out_tokens = [[10, 20, 30, 40, - 1, - 1, - 1, - 1]],
           out_labels = [2],
           out_timesteps = [[1 / 100, 1 / 50, 3 / 100, 1 / 25, 0, 0, 0, 0]],
           out_lengths = Matrix [[4]] \<rparr> \<and>
   (0::int) < 4 \<and> max_len False audio_batch = 4 \<and>
   batch_pad_length False audio_batch 4 = 4 + 4 \<and>
   event_stream_collate_fn pair_batch [128, 128] 4 False =
     Inr \<lparr> out_tokens = [[16399, 1, - 1, - 1], [0, - 1, - 1, - 1]],
           out_labels = [7, 3],
           out_timesteps = [[2, 1 / 2, 0, 0], [3 / 10, 0, 0, 0]],
           out_lengths = Vector [2, 1] \<rparr> \<and>
   max_len False pair_batch = 2 \<and>
   batch_pad_length False pair_batch 4 = \<lceil>rat_of_int 2 / rat_of_int 4\<rceil> * 4"
proof -
  have pos: "(0::int) < 4" by simp
  have m1: "max_len False audio_batch = 4" and m2: "max_len False pair_batch = 2"
    by code_simp+
  from C2_pad_length[OF run_audio_batch pos]
  have 1: "batch_pad_length False audio_batch 4 = 4 + 4"
    by (simp add: m1)
  from C2_pad_length[OF run_pair_batch pos]
  have 2: "batch_pad_length False pair_batch 4 = \<lceil>rat_of_int 2 / rat_of_int 4\<rceil> * 4"
    by (simp add: m2)
  from 1 2 m1 m2 run_audio_batch run_pair_batch show ?thesis by simp
qed

subsection \<open>C1: the token encoding for two spatial dimensions\<close>

text \<open>
  Claim C1: for a resolution of length 2, every non-padded token equals
  \<open>x + width * y + width * height * polarity\<close>. The routine multiplies the two coordinates
  instead (\<open>token_value_two_dims\<close>): for the event \<open>x = 3, y = 5, p = 1\<close> at resolution
  \<open>(128, 128)\<close> it returns \<open>3 * 5 + 16384 = 16399\<close>, where the encoding of the claim gives
  \<open>3 + 128 * 5 + 16384 = 17027\<close>.
\<close>

theorem C1_token_encoding_divergence:
  "event_stream_collate_fn single_batch [128, 128] 4 False =
     Inr \<lparr> out_tokens = [[16399, 1, - 1, - 1]],
           out_labels = [7],
           out_timesteps = [[2, 1 / 2, 0, 0]],
           out_lengths = Matrix [[2]] \<rparr> \<and>
   events (single_batch ! 0) ! 0 = \<lparr> ev_t = 0, ev_x = 3, ev_y = 5, ev_p = 1 \<rparr> \<and>
   [[16399, 1, - 1, - 1]] ! 0 ! 0 = (3 * 5 + 128 * 128 * 1 :: int) \<and>
   [[16399, 1, - 1, - 1]] ! 0 ! 0 \<noteq> (3 + 128 * 5 + 128 * 128 * 1 :: int)"
proof -
  have "events (single_batch ! 0) ! 0 = \<lparr> ev_t = 0, ev_x = 3, ev_y = 5, ev_p = 1 \<rparr>"
    by (simp add: single_batch_def gesture_events_def ev_def)
  with run_single_batch show ?thesis by simp
qed

end
